theory Spec2Isabelle
  imports
    Complex_Main
    "HOL-Library.Char_ord"
    "HOL-Library.List_Lexorder"
    "HOL-Library.Product_Lexorder"
    "HOL-Library.Multiset"
begin

section \<open>Python values and the library functions the service calls\<close>

text \<open>
  The service is one Python module, \<^verbatim>\<open>app.py\<close>: a FastAPI application over one SQLite
  table \<^verbatim>\<open>prices (id TEXT PRIMARY KEY, data TEXT NOT NULL)\<close>.

  A Python \<^verbatim>\<open>str\<close> is modelled by \<^typ>\<open>string\<close>, one \<^typ>\<open>char\<close> per code point, so the
  model covers the strings whose code points are below 256. Comparison of strings is
  lexicographic on code points, which is the order of \<^theory_text>\<open>List_Lexorder\<close> over
  \<^theory_text>\<open>Char_ord\<close>; tuples compare lexicographically as in \<^theory_text>\<open>Product_Lexorder\<close>.

  The type \<^verbatim>\<open>Any\<close> of a JSON request body is the datatype \<open>pyval\<close>. The Python
  \<^verbatim>\<open>float\<close> type is the type parameter \<open>'f\<close>: the service never computes with a float,
  it only converts to one and stores it.
\<close>

datatype 'f pyval =
    PNone
  | PBool bool
  | PInt int
  | PFloat 'f
  | PStr string
  | PList "'f pyval list"
  | PDict "(string \<times> 'f pyval) list"

text \<open>
  The exceptions that the code of the service can raise. \<^verbatim>\<open>ValueError\<close> carries its
  message, since \<^verbatim>\<open>upsert_price\<close> copies it into the response.
\<close>

datatype exn = ValueError string | TypeError | OverflowError

text \<open>
  The parts of the Python runtime that are taken as parameters: the parser behind
  \<^verbatim>\<open>float(s)\<close> for a string (\<open>None\<close> is its \<^verbatim>\<open>ValueError\<close>), the conversion
  \<^verbatim>\<open>float(n)\<close> of an integer (\<open>None\<close> is its \<^verbatim>\<open>OverflowError\<close>), and \<^verbatim>\<open>repr\<close> of a
  float and of a string.
\<close>

record 'f pylib =
  float_of_str :: "string \<Rightarrow> 'f option"
  float_of_int :: "int \<Rightarrow> 'f option"
  repr_float :: "'f \<Rightarrow> string"
  repr_str :: "string \<Rightarrow> string"

subsection \<open>\<^verbatim>\<open>str.strip()\<close> and \<^verbatim>\<open>str.lower()\<close>\<close>

text \<open>The code points below 256 for which \<^verbatim>\<open>str.isspace()\<close> holds.\<close>

definition is_space :: "char \<Rightarrow> bool" where
  "is_space c =
     (let n = (of_char c :: nat)
      in (9 \<le> n \<and> n \<le> 13) \<or> (28 \<le> n \<and> n \<le> 32) \<or> n = 133 \<or> n = 160)"

definition strip :: "string \<Rightarrow> string" where
  "strip s = rev (dropWhile is_space (rev (dropWhile is_space s)))"

text \<open>Lower case of a code point below 256: A to Z, and the Latin-1 capitals except the
  multiplication sign.\<close>

definition lower_char :: "char \<Rightarrow> char" where
  "lower_char c =
     (let n = (of_char c :: nat)
      in if (65 \<le> n \<and> n \<le> 90) \<or> (192 \<le> n \<and> n \<le> 222 \<and> n \<noteq> 215)
         then char_of (n + 32) else c)"

definition lower :: "string \<Rightarrow> string" where
  "lower s = map lower_char s"

subsection \<open>\<^verbatim>\<open>str(v)\<close>\<close>

fun str_nat :: "nat \<Rightarrow> string" where
  "str_nat n =
     (if n < 10 then [char_of (48 + n)]
      else str_nat (n div 10) @ [char_of (48 + n mod 10)])"

declare str_nat.simps [simp del]

definition str_int :: "int \<Rightarrow> string" where
  "str_int i = (if i < 0 then CHR ''-'' # str_nat (nat (- i)) else str_nat (nat i))"

fun join :: "string \<Rightarrow> string list \<Rightarrow> string" where
  "join sep [] = []"
| "join sep [x] = x"
| "join sep (x # y # ys) = x @ sep @ join sep (y # ys)"

fun py_repr :: "'f pylib \<Rightarrow> 'f pyval \<Rightarrow> string" where
  "py_repr L PNone = ''None''"
| "py_repr L (PBool b) = (if b then ''True'' else ''False'')"
| "py_repr L (PInt i) = str_int i"
| "py_repr L (PFloat x) = repr_float L x"
| "py_repr L (PStr s) = repr_str L s"
| "py_repr L (PList vs) = ''['' @ join '', '' (map (py_repr L) vs) @ '']''"
| "py_repr L (PDict kvs) =
     ''{'' @ join '', '' (map (\<lambda>kv. repr_str L (fst kv) @ '': '' @ py_repr L (snd kv)) kvs) @ ''}''"

text \<open>\<^verbatim>\<open>str(v)\<close> is \<^verbatim>\<open>repr(v)\<close> except on a string, which it returns as it is.\<close>

definition py_str :: "'f pylib \<Rightarrow> 'f pyval \<Rightarrow> string" where
  "py_str L v = (case v of PStr s \<Rightarrow> s | _ \<Rightarrow> py_repr L v)"

subsection \<open>\<^verbatim>\<open>float(v)\<close>\<close>

definition py_float :: "'f pylib \<Rightarrow> 'f pyval \<Rightarrow> exn + 'f" where
  "py_float L v =
     (case v of
        PFloat x \<Rightarrow> Inr x
      | PBool b \<Rightarrow>
          (case float_of_int L (if b then 1 else 0) of
             None \<Rightarrow> Inl OverflowError | Some x \<Rightarrow> Inr x)
      | PInt i \<Rightarrow>
          (case float_of_int L i of None \<Rightarrow> Inl OverflowError | Some x \<Rightarrow> Inr x)
      | PStr s \<Rightarrow>
          (case float_of_str L s of
             None \<Rightarrow> Inl (ValueError (''could not convert string to float: '' @ repr_str L s))
           | Some x \<Rightarrow> Inr x)
      | PNone \<Rightarrow> Inl TypeError
      | PList _ \<Rightarrow> Inl TypeError
      | PDict _ \<Rightarrow> Inl TypeError)"

subsection \<open>\<^verbatim>\<open>dict.get\<close>\<close>

type_synonym 'f pydict = "string \<rightharpoonup> 'f pyval"

definition dict_get :: "'f pydict \<Rightarrow> string \<Rightarrow> 'f pyval \<Rightarrow> 'f pyval" where
  "dict_get d k dflt = (case d k of None \<Rightarrow> dflt | Some v \<Rightarrow> v)"

section \<open>The record normalizer\<close>

text \<open>
  \<^verbatim>\<open>
  def normalize_bool(v: Any) -> bool:
      if isinstance(v, bool):
          return v
      if v is None:
          return False
      s = str(v).strip().lower()
      return s in ("true", "1", "yes", "y", "sim")
  \<close>
\<close>

definition truthy :: "string list" where
  "truthy = [''true'', ''1'', ''yes'', ''y'', ''sim'']"

definition normalize_bool :: "'f pylib \<Rightarrow> 'f pyval \<Rightarrow> bool" where
  "normalize_bool L v =
     (case v of
        PBool b \<Rightarrow> b
      | PNone \<Rightarrow> False
      | _ \<Rightarrow> lower (strip (py_str L v)) \<in> set truthy)"

text \<open>
  The dictionary that \<^verbatim>\<open>normalize_row\<close> returns always has the four keys
  \<^verbatim>\<open>sku\<close>, \<^verbatim>\<open>key\<close>, \<^verbatim>\<open>price\<close>, \<^verbatim>\<open>isActive\<close>, with values of type
  \<^verbatim>\<open>str\<close>, \<^verbatim>\<open>str\<close>, \<^verbatim>\<open>float\<close>, \<^verbatim>\<open>bool\<close>: it is a record.
\<close>

record 'f price_rec =
  sku :: string
  key :: string
  price :: 'f
  isActive :: bool

text \<open>
  \<^verbatim>\<open>
  def normalize_row(row):
      sku = str(row.get("sku", "")).strip()
      key = str(row.get("key", "")).strip()
      if not sku or not key:
          raise ValueError("sku and key are required")
      price = row.get("price", None)
      if price is None or str(price).strip() == "":
          raise ValueError("price is required")
      price = float(price)
      is_active = normalize_bool(row.get("isActive", True))
      return {"sku": sku, "key": key, "price": price, "isActive": is_active}
  \<close>
\<close>

definition normalize_row :: "'f pylib \<Rightarrow> 'f pydict \<Rightarrow> exn + 'f price_rec" where
  "normalize_row L row =
     (let s = strip (py_str L (dict_get row ''sku'' (PStr '''')));
          k = strip (py_str L (dict_get row ''key'' (PStr '''')))
      in if s = [] \<or> k = [] then Inl (ValueError ''sku and key are required'')
         else
           (let p = dict_get row ''price'' PNone
            in if p = PNone \<or> strip (py_str L p) = []
               then Inl (ValueError ''price is required'')
               else
                 (case py_float L p of
                    Inl e \<Rightarrow> Inl e
                  | Inr x \<Rightarrow>
                      Inr \<lparr>sku = s, key = k, price = x,
                           isActive = normalize_bool L (dict_get row ''isActive'' (PBool True))\<rparr>)))"

definition make_id :: "string \<Rightarrow> string \<Rightarrow> string" where
  "make_id s k = s @ ''::'' @ k"

section \<open>The SQLite table and its connection\<close>

text \<open>
  The table \<^verbatim>\<open>prices\<close> is the list of its rows \<open>(id, data)\<close>, oldest row first, which
  is the order in which \<^verbatim>\<open>SELECT data FROM prices\<close> is taken to return them. The
  column \<^verbatim>\<open>data\<close> holds \<^verbatim>\<open>json.dumps\<close> of a dictionary returned by
  \<^verbatim>\<open>normalize_row\<close>, and every reader applies \<^verbatim>\<open>json.loads\<close> to it: a row is
  modelled by the record that its text encodes, and the JSON text itself is not part of
  the model.

  The state of the service is the committed table. A connection sees the committed
  table and its own pending changes; \<^verbatim>\<open>commit\<close> makes the pending table the committed
  one, and \<^verbatim>\<open>close\<close> without \<^verbatim>\<open>commit\<close> drops the pending changes (the module
  \<^verbatim>\<open>sqlite3\<close> opens a transaction before the first \<^verbatim>\<open>DELETE\<close> or \<^verbatim>\<open>INSERT\<close>, and
  closing the connection rolls an open transaction back).
\<close>

type_synonym 'f table = "(string \<times> 'f price_rec) list"

record 'f connection =
  committed :: "'f table"
  pending :: "'f table"

text \<open>\<^verbatim>\<open>get_db\<close>: \<^verbatim>\<open>CREATE TABLE IF NOT EXISTS\<close> leaves an existing table as it is, and
  a missing table is the empty one.\<close>

definition get_db :: "'f table \<Rightarrow> 'f connection" where
  "get_db db = \<lparr>committed = db, pending = db\<rparr>"

text \<open>\<^verbatim>\<open>DELETE FROM prices\<close>\<close>

definition execute_delete :: "'f connection \<Rightarrow> 'f connection" where
  "execute_delete conn = conn\<lparr>pending := []\<rparr>"

text \<open>\<^verbatim>\<open>INSERT OR REPLACE INTO prices (id, data) VALUES (?, ?)\<close>: the row with this
  primary key, if any, is deleted, and the new row is added.\<close>

definition insert_or_replace :: "string \<Rightarrow> 'f price_rec \<Rightarrow> 'f table \<Rightarrow> 'f table" where
  "insert_or_replace pid d t = filter (\<lambda>r. fst r \<noteq> pid) t @ [(pid, d)]"

definition execute_insert_or_replace ::
    "string \<Rightarrow> 'f price_rec \<Rightarrow> 'f connection \<Rightarrow> 'f connection" where
  "execute_insert_or_replace pid d conn =
     conn\<lparr>pending := insert_or_replace pid d (pending conn)\<rparr>"

text \<open>\<^verbatim>\<open>SELECT data FROM prices\<close>, each row through \<^verbatim>\<open>json.loads\<close>\<close>

definition execute_select_data :: "'f connection \<Rightarrow> 'f price_rec list" where
  "execute_select_data conn = map snd (pending conn)"

definition commit :: "'f connection \<Rightarrow> 'f connection" where
  "commit conn = conn\<lparr>committed := pending conn\<rparr>"

text \<open>The table that the database file holds once the connection is closed.\<close>

definition close :: "'f connection \<Rightarrow> 'f table" where
  "close conn = committed conn"

section \<open>The request handlers\<close>

text \<open>
  What a handler does to its caller: it returns a body, it raises \<^verbatim>\<open>HTTPException\<close>
  with a status code and a detail, or another exception leaves it.
  FastAPI answers a returned body with status 200, an \<^verbatim>\<open>HTTPException\<close> with its own
  status code, and an exception that nothing handles with 500 Internal Server Error.
  The handlers below are the bodies of the routes: the request has passed
  \<^verbatim>\<open>require_basic_auth\<close>.
\<close>

datatype 'a outcome = Returned 'a | HTTPException nat string | Raised exn

definition status_code :: "'a outcome \<Rightarrow> nat" where
  "status_code out =
     (case out of Returned _ \<Rightarrow> 200 | HTTPException c _ \<Rightarrow> c | Raised _ \<Rightarrow> 500)"

text \<open>
  \<^verbatim>\<open>
  def list_prices():
      conn = get_db()
      try:
          cur = conn.execute("SELECT data FROM prices")
          rows = [json.loads(r[0]) for r in cur.fetchall()]
          rows.sort(key=lambda x: (x.get("sku", ""), x.get("key", "")))
          return rows
      finally:
          conn.close()
  \<close>
  \<^verbatim>\<open>list.sort\<close> is a stable sort, as \<^const>\<open>sort_key\<close> is.
\<close>

definition sort_tuple :: "'f price_rec \<Rightarrow> string \<times> string" where
  "sort_tuple x = (sku x, key x)"

definition list_prices :: "'f table \<Rightarrow> 'f price_rec list outcome \<times> 'f table" where
  "list_prices db =
     (let conn = get_db db;
          rows = execute_select_data conn;
          rows = sort_key sort_tuple rows
      in (Returned rows, close conn))"

text \<open>
  \<^verbatim>\<open>
  def upsert_price(sku, key, payload):
      payload = dict(payload)
      payload["sku"] = sku
      payload["key"] = key
      try:
          data = normalize_row(payload)
      except ValueError as e:
          raise HTTPException(status_code=400, detail=str(e))
      pid = make_id(sku, key)
      conn = get_db()
      try:
          conn.execute("INSERT OR REPLACE INTO prices (id, data) VALUES (?, ?)",
                       (pid, json.dumps(data, ensure_ascii=False)))
          conn.commit()
          return {"status": "ok", "id": pid, "price": data}
      finally:
          conn.close()
  \<close>
\<close>

record 'f upsert_body =
  u_status :: string
  u_id :: string
  u_price :: "'f price_rec"

definition upsert_price ::
    "'f pylib \<Rightarrow> string \<Rightarrow> string \<Rightarrow> 'f pydict \<Rightarrow> 'f table
      \<Rightarrow> 'f upsert_body outcome \<times> 'f table" where
  "upsert_price L s k payload db =
     (let payload = payload(''sku'' \<mapsto> PStr s, ''key'' \<mapsto> PStr k)
      in case normalize_row L payload of
           Inl (ValueError m) \<Rightarrow> (HTTPException 400 m, db)
         | Inl e \<Rightarrow> (Raised e, db)
         | Inr d \<Rightarrow>
             (let pid = make_id s k;
                  conn = get_db db;
                  conn = execute_insert_or_replace pid d conn;
                  conn = commit conn
              in (Returned \<lparr>u_status = ''ok'', u_id = pid, u_price = d\<rparr>, close conn)))"

text \<open>
  \<^verbatim>\<open>
  def reset_prices(items):
      conn = get_db()
      try:
          conn.execute("DELETE FROM prices")
          for item in items:
              data = normalize_row(item)
              pid = make_id(data["sku"], data["key"])
              conn.execute("INSERT OR REPLACE INTO prices (id, data) VALUES (?, ?)",
                           (pid, json.dumps(data, ensure_ascii=False)))
          conn.commit()
          return {"status": "ok", "count": len(items)}
      finally:
          conn.close()
  \<close>
  The loop stops at the first item that \<^verbatim>\<open>normalize_row\<close> rejects; the exception
  leaves the handler through \<^verbatim>\<open>finally\<close>, which closes the connection as it is then.
\<close>

record reset_body =
  r_status :: string
  r_count :: nat

fun reset_loop ::
    "'f pylib \<Rightarrow> 'f pydict list \<Rightarrow> 'f connection \<Rightarrow> (exn \<times> 'f connection) + 'f connection" where
  "reset_loop L [] conn = Inr conn"
| "reset_loop L (item # items) conn =
     (case normalize_row L item of
        Inl e \<Rightarrow> Inl (e, conn)
      | Inr d \<Rightarrow>
          reset_loop L items
            (execute_insert_or_replace (make_id (sku d) (key d)) d conn))"

definition reset_prices ::
    "'f pylib \<Rightarrow> 'f pydict list \<Rightarrow> 'f table \<Rightarrow> reset_body outcome \<times> 'f table" where
  "reset_prices L items db =
     (let conn = get_db db;
          conn = execute_delete conn
      in case reset_loop L items conn of
           Inl (e, conn) \<Rightarrow> (Raised e, close conn)
         | Inr conn \<Rightarrow>
             (let conn = commit conn
              in (Returned \<lparr>r_status = ''ok'', r_count = length items\<rparr>, close conn)))"

section \<open>An instance of the library parameters\<close>

text \<open>
  To run the model on concrete requests the library parameters need values. In this
  instance a float is a rational number, \<^verbatim>\<open>float\<close> reads a string of decimal digits,
  every integer converts, and \<^verbatim>\<open>repr\<close> of a float and of a string are fixed texts (no
  input below depends on them beyond their not being blank).
\<close>

definition digit_val :: "char \<Rightarrow> nat option" where
  "digit_val c =
     (let n = (of_char c :: nat) in if 48 \<le> n \<and> n \<le> 57 then Some (n - 48) else None)"

fun read_digits :: "nat \<Rightarrow> string \<Rightarrow> nat option" where
  "read_digits acc [] = Some acc"
| "read_digits acc (c # cs) =
     (case digit_val c of None \<Rightarrow> None | Some d \<Rightarrow> read_digits (10 * acc + d) cs)"

definition lib0 :: "rat pylib" where
  "lib0 =
     \<lparr>float_of_str = (\<lambda>s. if strip s = [] then None
                           else map_option of_nat (read_digits 0 (strip s))),
      float_of_int = (\<lambda>i. Some (of_int i)),
      repr_float = (\<lambda>x. ''<float>''),
      repr_str = (\<lambda>s. [CHR 0x27] @ s @ [CHR 0x27])\<rparr>"

section \<open>Facts about the table operations and the handlers\<close>

lemma normalize_row_cases:
  "normalize_row L row =
     (if strip (py_str L (dict_get row ''sku'' (PStr ''''))) = []
         \<or> strip (py_str L (dict_get row ''key'' (PStr ''''))) = []
      then Inl (ValueError ''sku and key are required'')
      else if dict_get row ''price'' PNone = PNone
              \<or> strip (py_str L (dict_get row ''price'' PNone)) = []
      then Inl (ValueError ''price is required'')
      else case py_float L (dict_get row ''price'' PNone) of
             Inl e \<Rightarrow> Inl e
           | Inr x \<Rightarrow>
               Inr \<lparr>sku = strip (py_str L (dict_get row ''sku'' (PStr ''''))),
                    key = strip (py_str L (dict_get row ''key'' (PStr ''''))),
                    price = x,
                    isActive = normalize_bool L (dict_get row ''isActive'' (PBool True))\<rparr>)"
  by (simp add: normalize_row_def Let_def)

lemma py_float_not_required:
  "py_float L p \<noteq> Inl (ValueError ''sku and key are required'')"
  "py_float L p \<noteq> Inl (ValueError ''price is required'')"
  by (cases p; simp add: py_float_def split: option.splits)+

lemma upsert_price_success:
  "normalize_row L (payload(''sku'' \<mapsto> PStr s, ''key'' \<mapsto> PStr k)) = Inr d \<Longrightarrow>
   upsert_price L s k payload db =
     (Returned \<lparr>u_status = ''ok'', u_id = make_id s k, u_price = d\<rparr>,
      insert_or_replace (make_id s k) d db)"
  by (simp add: upsert_price_def Let_def get_db_def execute_insert_or_replace_def
      commit_def close_def)

lemma upsert_price_failure:
  "normalize_row L (payload(''sku'' \<mapsto> PStr s, ''key'' \<mapsto> PStr k)) = Inl e \<Longrightarrow>
   snd (upsert_price L s k payload db) = db"
  by (simp add: upsert_price_def Let_def split: exn.splits)

lemma upsert_price_failure_keeps_db:
  "isl (normalize_row L (payload(''sku'' \<mapsto> PStr s, ''key'' \<mapsto> PStr k)))
    \<Longrightarrow> snd (upsert_price L s k payload db) = db"
  by (auto simp: upsert_price_def Let_def split: sum.splits exn.splits)

lemma normalize_row_sku_key:
  "normalize_row L (payload(''sku'' \<mapsto> PStr s, ''key'' \<mapsto> PStr k)) = Inr d \<Longrightarrow>
   sku d = strip s \<and> key d = strip k"
  by (auto simp: normalize_row_def Let_def dict_get_def py_str_def
      split: if_splits sum.splits)

lemma filter_insert_or_replace_other:
  "filter (\<lambda>r. fst r \<noteq> pid) (insert_or_replace pid d t) = filter (\<lambda>r. fst r \<noteq> pid) t"
  by (simp add: insert_or_replace_def)

lemma filter_insert_or_replace_same:
  "filter (\<lambda>r. fst r = pid) (insert_or_replace pid d t) = [(pid, d)]"
  by (simp add: insert_or_replace_def)

lemma insert_or_replace_twice:
  "insert_or_replace pid d2 (insert_or_replace pid d1 t) = insert_or_replace pid d2 t"
  by (simp add: insert_or_replace_def)

lemma map_of_insert_or_replace_other:
  "i \<noteq> pid \<Longrightarrow> map_of (insert_or_replace pid d t) i = map_of t i"
  by (induction t) (auto simp: insert_or_replace_def)

lemma normalize_row_price:
  "normalize_row L row = Inr d \<Longrightarrow> py_float L (dict_get row ''price'' PNone) = Inr (price d)"
  by (auto simp: normalize_row_def Let_def split: if_splits sum.splits)

lemma list_prices_eq:
  "list_prices db = (Returned (sort_key sort_tuple (map snd db)), db)"
  by (simp add: list_prices_def get_db_def execute_select_data_def close_def)

lemma map_sort_key: "map f (sort_key f xs) = sort (map f xs)"
  by (rule properties_for_sort [symmetric]) simp_all

lemma sort_mset_cong: "mset xs = mset ys \<Longrightarrow> sort xs = sort ys"
  by (metis sorted_list_of_multiset_mset)

lemma sort_key_mset_cong:
  "mset xs = mset ys \<Longrightarrow> distinct (map f xs) \<Longrightarrow> sort_key f xs = sort_key f ys"
  by (metis sort_key_eq_sort_key distinct_map)

lemma sorted_prod_nth:
  fixes ps :: "(string \<times> string) list"
  assumes "sorted ps" and "i < j" and "j < length ps"
  shows "fst (ps ! i) < fst (ps ! j) \<or> (fst (ps ! i) = fst (ps ! j) \<and> snd (ps ! i) \<le> snd (ps ! j))"
proof -
  from assms have "ps ! i \<le> ps ! j"
    by (simp add: sorted_iff_nth_mono)
  then show ?thesis
    by (auto simp: less_eq_prod_def)
qed

lemma filter_map_snd_none:
  "\<forall>r \<in> set t. \<not> P (snd r) \<Longrightarrow> filter P (map snd t) = []"
  by (induction t) auto

lemma ids_insert_or_replace:
  "set (map fst (insert_or_replace pid d t)) = insert pid (set (map fst t))"
  by (auto simp: insert_or_replace_def)

lemma distinct_insert_or_replace:
  "distinct (map fst t) \<Longrightarrow> distinct (map fst (insert_or_replace pid d t))"
  by (auto simp: insert_or_replace_def distinct_map_filter)

lemma rows_insert_or_replace:
  "set (insert_or_replace pid d t) \<subseteq> insert (pid, d) (set t)"
  by (auto simp: insert_or_replace_def)

lemma reset_loop_succeeds:
  assumes "\<forall>item \<in> set items. \<not> isl (normalize_row L item)"
      and "distinct (map fst (pending conn))"
  shows "\<exists>c ds. reset_loop L items conn = Inr c
           \<and> map (normalize_row L) items = map Inr ds
           \<and> distinct (map fst (pending c))
           \<and> set (map fst (pending c))
               = set (map fst (pending conn)) \<union> set (map (\<lambda>d. make_id (sku d) (key d)) ds)
           \<and> set (pending c)
               \<subseteq> set (pending conn) \<union> (\<lambda>d. (make_id (sku d) (key d), d)) ` set ds"
  using assms
proof (induction items arbitrary: conn)
  case Nil
  then show ?case by simp
next
  case (Cons item items)
  from Cons.prems(1) obtain d where d: "normalize_row L item = Inr d"
    by (cases "normalize_row L item") auto
  let ?conn = "execute_insert_or_replace (make_id (sku d) (key d)) d conn"
  have p: "pending ?conn = insert_or_replace (make_id (sku d) (key d)) d (pending conn)"
    by (simp add: execute_insert_or_replace_def)
  from Cons.prems(2) have dist: "distinct (map fst (pending ?conn))"
    unfolding p by (rule distinct_insert_or_replace)
  from Cons.prems(1) have rest: "\<forall>item \<in> set items. \<not> isl (normalize_row L item)"
    by simp
  from Cons.IH [OF rest dist] obtain c ds where
      loop: "reset_loop L items ?conn = Inr c"
      and ds: "map (normalize_row L) items = map Inr ds"
      and dc: "distinct (map fst (pending c))"
      and ids: "set (map fst (pending c))
               = set (map fst (pending ?conn)) \<union> set (map (\<lambda>d. make_id (sku d) (key d)) ds)"
      and rows: "set (pending c)
               \<subseteq> set (pending ?conn) \<union> (\<lambda>d. (make_id (sku d) (key d), d)) ` set ds"
    by blast
  have l: "reset_loop L (item # items) conn = Inr c"
    using d loop by simp
  have m: "map (normalize_row L) (item # items) = map Inr (d # ds)"
    using d ds by simp
  have i: "set (map fst (pending c))
      = set (map fst (pending conn)) \<union> set (map (\<lambda>d. make_id (sku d) (key d)) (d # ds))"
    using ids unfolding p ids_insert_or_replace by auto
  have r: "set (pending c)
      \<subseteq> set (pending conn) \<union> (\<lambda>d. (make_id (sku d) (key d), d)) ` set (d # ds)"
    using rows rows_insert_or_replace [of "make_id (sku d) (key d)" d "pending conn"]
    unfolding p by auto
  show ?case
    by (intro exI [of _ c] exI [of _ "d # ds"] conjI l m dc i r)
qed

section \<open>Reset is all or nothing\<close>

lemma committed_execute_insert_or_replace:
  "committed (execute_insert_or_replace pid d conn) = committed conn"
  by (simp add: execute_insert_or_replace_def)

lemma reset_loop_Inl_committed:
  "reset_loop L items conn = Inl (e, c) \<Longrightarrow> committed c = committed conn"
proof (induction items arbitrary: conn)
  case Nil
  then show ?case by simp
next
  case (Cons item items)
  show ?case
  proof (cases "normalize_row L item")
    case (Inl e')
    with Cons.prems show ?thesis by simp
  next
    case (Inr d)
    with Cons.prems have "reset_loop L items
        (execute_insert_or_replace (make_id (sku d) (key d)) d conn) = Inl (e, c)"
      by simp
    from Cons.IH [OF this] show ?thesis
      by (simp add: committed_execute_insert_or_replace)
  qed
qed

lemma reset_loop_fails:
  "\<exists>item \<in> set items. isl (normalize_row L item) \<Longrightarrow> \<exists>e c. reset_loop L items conn = Inl (e, c)"
proof (induction items arbitrary: conn)
  case Nil
  then show ?case by simp
next
  case (Cons item items)
  show ?case
  proof (cases "normalize_row L item")
    case (Inl e')
    then show ?thesis by simp
  next
    case (Inr d)
    with Cons.prems have "\<exists>item \<in> set items. isl (normalize_row L item)"
      by auto
    from Cons.IH [OF this] Inr show ?thesis by simp
  qed
qed

text \<open>
  Claim C1. \<^verbatim>\<open>reset_prices\<close> is all or nothing: whenever \<^verbatim>\<open>normalize_row\<close> rejects
  some element of the input, the committed table after the call is the table before the
  call, and the call ends with the exception. The \<^verbatim>\<open>DELETE\<close> and the rows inserted
  before the failing element stay pending and are dropped when the connection closes.
\<close>

theorem reset_prices_all_or_nothing:
  assumes "\<exists>item \<in> set items. isl (normalize_row L item)"
  shows "snd (reset_prices L items db) = db \<and> (\<exists>e. fst (reset_prices L items db) = Raised e)"
proof -
  let ?conn = "execute_delete (get_db db)"
  from reset_loop_fails [OF assms] obtain e c where loop: "reset_loop L items ?conn = Inl (e, c)"
    by blast
  from reset_loop_Inl_committed [OF loop] have "committed c = db"
    by (simp add: execute_delete_def get_db_def)
  with loop show ?thesis
    by (simp add: reset_prices_def close_def)
qed

theorem reset_prices_all_or_nothing_witness:
  "snd (reset_prices lib0
      [[''sku'' \<mapsto> PStr ''A'', ''key'' \<mapsto> PStr ''k'', ''price'' \<mapsto> PInt 1],
       [''sku'' \<mapsto> PStr '''', ''key'' \<mapsto> PStr ''k'', ''price'' \<mapsto> PInt 2]]
      [(''B::k'', \<lparr>sku = ''B'', key = ''k'', price = 3, isActive = True\<rparr>)])
   = [(''B::k'', \<lparr>sku = ''B'', key = ''k'', price = 3, isActive = True\<rparr>)]"
  using reset_prices_all_or_nothing [of
      "[[''sku'' \<mapsto> PStr ''A'', ''key'' \<mapsto> PStr ''k'', ''price'' \<mapsto> PInt 1],
        [''sku'' \<mapsto> PStr '''', ''key'' \<mapsto> PStr ''k'', ''price'' \<mapsto> PInt 2]]"
      lib0 "[(''B::k'', \<lparr>sku = ''B'', key = ''k'', price = 3, isActive = True\<rparr>)]"]
  by (simp add: normalize_row_def dict_get_def py_str_def strip_def)

section \<open>What the handlers guarantee in terms of the row id\<close>

text \<open>
  \<^verbatim>\<open>upsert_price\<close> writes its row under the id of the path segments as they arrive,
  \<^verbatim>\<open>make_id(sku, key)\<close>, while the record in the row holds the trimmed segments;
  \<^verbatim>\<open>reset_prices\<close> and the spreadsheet import build the id from the trimmed fields of
  the record. The lemmas of this section say what holds of \<^verbatim>\<open>upsert_price\<close> in terms of
  the id that it writes. They are facts about the code, not about the pair
  \<^verbatim>\<open>(sku, key)\<close> of the record: the sections on upsert below show where the two differ.
\<close>

lemma id_of_record_other_pair:
  assumes "\<forall>r \<in> set db. fst r = make_id (sku (snd r)) (key (snd r))"
      and "strip s = s" and "strip k = k"
  shows "\<forall>r \<in> set db. fst r \<noteq> make_id s k \<longrightarrow> sort_tuple (snd r) \<noteq> (strip s, strip k)"
  using assms by (auto simp: sort_tuple_def)

lemma upsert_then_list_by_id:
  assumes "normalize_row L (payload(''sku'' \<mapsto> PStr s, ''key'' \<mapsto> PStr k)) = Inr d"
      and "\<forall>r \<in> set db. fst r \<noteq> make_id s k \<longrightarrow> sort_tuple (snd r) \<noteq> (strip s, strip k)"
  shows "\<exists>rows. fst (list_prices (snd (upsert_price L s k payload db))) = Returned rows
           \<and> filter (\<lambda>r. sku r = strip s \<and> key r = strip k) rows = [d]
           \<and> sku d = strip s \<and> key d = strip k
           \<and> py_float L (dict_get payload ''price'' PNone) = Inr (price d)"
proof -
  let ?P = "\<lambda>r :: 'a price_rec. sku r = strip s \<and> key r = strip k"
  let ?others = "filter (\<lambda>r. fst r \<noteq> make_id s k) db"
  from normalize_row_sku_key [OF assms(1)] have sk: "sku d = strip s \<and> key d = strip k" .
  from assms(2) have "\<forall>r \<in> set ?others. \<not> ?P (snd r)"
    by (auto simp: sort_tuple_def)
  then have none: "filter ?P (map snd ?others) = []"
    by (rule filter_map_snd_none)
  have "filter ?P (sort_key sort_tuple (map snd (insert_or_replace (make_id s k) d db)))
      = sort_key sort_tuple (filter ?P (map snd (insert_or_replace (make_id s k) d db)))"
    by (rule filter_sort)
  also have "filter ?P (map snd (insert_or_replace (make_id s k) d db)) = [d]"
    using none sk by (simp add: insert_or_replace_def)
  finally have one: "filter ?P (sort_key sort_tuple (map snd (insert_or_replace (make_id s k) d db)))
      = [d]"
    by simp
  from normalize_row_price [OF assms(1)]
  have pr: "py_float L (dict_get payload ''price'' PNone) = Inr (price d)"
    by (simp add: dict_get_def)
  from one sk pr show ?thesis
    by (simp add: upsert_price_success [OF assms(1)] list_prices_eq)
qed

lemma upsert_price_twice_by_id:
  assumes "normalize_row L (p1(''sku'' \<mapsto> PStr s, ''key'' \<mapsto> PStr k)) = Inr d1"
      and "normalize_row L (p2(''sku'' \<mapsto> PStr s, ''key'' \<mapsto> PStr k)) = Inr d2"
  shows "snd (upsert_price L s k p2 (snd (upsert_price L s k p1 db)))
           = filter (\<lambda>r. fst r \<noteq> make_id s k) db @ [(make_id s k, d2)]
         \<and> filter (\<lambda>r. fst r = make_id s k)
              (snd (upsert_price L s k p2 (snd (upsert_price L s k p1 db))))
           = [(make_id s k, d2)]
         \<and> snd (upsert_price L s k p2 (snd (upsert_price L s k p1 db)))
           = snd (upsert_price L s k p2 db)"
  using upsert_price_success [OF assms(1)] upsert_price_success [OF assms(2)]
  by (simp add: insert_or_replace_def)

lemma upsert_price_other_ids:
  "filter (\<lambda>r. fst r \<noteq> make_id s k) (snd (upsert_price L s k payload db))
     = filter (\<lambda>r. fst r \<noteq> make_id s k) db
   \<and> (i \<noteq> make_id s k \<longrightarrow> map_of (snd (upsert_price L s k payload db)) i = map_of db i)"
proof (cases "normalize_row L (payload(''sku'' \<mapsto> PStr s, ''key'' \<mapsto> PStr k))")
  case (Inl e)
  from upsert_price_failure [OF this] show ?thesis by simp
next
  case (Inr d)
  from upsert_price_success [OF this]
  show ?thesis
    by (simp add: filter_insert_or_replace_other map_of_insert_or_replace_other)
qed

lemma normalize_row_checks:
  "(normalize_row L row = Inl (ValueError ''sku and key are required'')
      \<longleftrightarrow> strip (py_str L (dict_get row ''sku'' (PStr ''''))) = []
          \<or> strip (py_str L (dict_get row ''key'' (PStr ''''))) = [])
   \<and> (normalize_row L row = Inl (ValueError ''price is required'')
      \<longleftrightarrow> strip (py_str L (dict_get row ''sku'' (PStr ''''))) \<noteq> []
          \<and> strip (py_str L (dict_get row ''key'' (PStr ''''))) \<noteq> []
          \<and> (dict_get row ''price'' PNone = PNone
               \<or> strip (py_str L (dict_get row ''price'' PNone)) = []))
   \<and> (strip (py_str L (dict_get row ''sku'' (PStr ''''))) \<noteq> []
        \<and> strip (py_str L (dict_get row ''key'' (PStr ''''))) \<noteq> []
        \<and> dict_get row ''price'' PNone = PStr t \<and> strip t \<noteq> []
        \<and> float_of_str L t = None
      \<longrightarrow> normalize_row L row
            = Inl (ValueError (''could not convert string to float: '' @ repr_str L t)))
   \<and> (isl (normalize_row L (payload(''sku'' \<mapsto> PStr s, ''key'' \<mapsto> PStr k)))
      \<longrightarrow> snd (upsert_price L s k payload db) = db)"
proof -
  have a: "normalize_row L row = Inl (ValueError ''sku and key are required'')
      \<longleftrightarrow> strip (py_str L (dict_get row ''sku'' (PStr ''''))) = []
          \<or> strip (py_str L (dict_get row ''key'' (PStr ''''))) = []"
    using py_float_not_required(1) [of L "dict_get row ''price'' PNone"]
    by (auto simp: normalize_row_cases split: sum.splits)
  have b: "normalize_row L row = Inl (ValueError ''price is required'')
      \<longleftrightarrow> strip (py_str L (dict_get row ''sku'' (PStr ''''))) \<noteq> []
          \<and> strip (py_str L (dict_get row ''key'' (PStr ''''))) \<noteq> []
          \<and> (dict_get row ''price'' PNone = PNone
               \<or> strip (py_str L (dict_get row ''price'' PNone)) = [])"
    using py_float_not_required(2) [of L "dict_get row ''price'' PNone"]
    by (auto simp: normalize_row_cases split: sum.splits)
  have c: "strip (py_str L (dict_get row ''sku'' (PStr ''''))) \<noteq> []
        \<and> strip (py_str L (dict_get row ''key'' (PStr ''''))) \<noteq> []
        \<and> dict_get row ''price'' PNone = PStr t \<and> strip t \<noteq> []
        \<and> float_of_str L t = None
      \<longrightarrow> normalize_row L row
            = Inl (ValueError (''could not convert string to float: '' @ repr_str L t))"
    by (simp add: normalize_row_cases py_float_def py_str_def)
  have d: "isl (normalize_row L (payload(''sku'' \<mapsto> PStr s, ''key'' \<mapsto> PStr k)))
      \<longrightarrow> snd (upsert_price L s k payload db) = db"
    using upsert_price_failure_keeps_db by blast
  from a b c d show ?thesis by blast
qed

section \<open>Upsert, then list\<close>

text \<open>
  Claim C2 says that after an upsert of a valid \<^verbatim>\<open>(sku, key, price)\<close> the list has exactly
  one record with that \<^verbatim>\<open>sku\<close> and \<^verbatim>\<open>key\<close>. The code lists two after
  \<^verbatim>\<open>PUT /prices/%20A/k\<close> with price 9 and \<^verbatim>\<open>PUT /prices/A/k\<close> with price 2 on an empty
  table: the first row is stored under the id of the untrimmed segments, so the upsert of
  \<^verbatim>\<open>A\<close>, \<^verbatim>\<open>k\<close> does not replace it, and both rows hold the \<^verbatim>\<open>sku\<close> \<^verbatim>\<open>A\<close> and the
  \<^verbatim>\<open>key\<close> \<^verbatim>\<open>k\<close>.
\<close>

theorem upsert_then_list_two_records:
  "snd (upsert_price lib0 '' A'' ''k'' [''price'' \<mapsto> PInt 9] [])
     = [('' A::k'', \<lparr>sku = ''A'', key = ''k'', price = 9, isActive = True\<rparr>)]
   \<and> fst (list_prices (snd (upsert_price lib0 ''A'' ''k'' [''price'' \<mapsto> PInt 2]
        [('' A::k'', \<lparr>sku = ''A'', key = ''k'', price = 9, isActive = True\<rparr>)])))
     = Returned
         [\<lparr>sku = ''A'', key = ''k'', price = 9, isActive = True\<rparr>,
          \<lparr>sku = ''A'', key = ''k'', price = 2, isActive = True\<rparr>]"
  by code_simp

section \<open>The status of a rejected reset\<close>

text \<open>
  Claim C3 says that a reset whose body has an element that \<^verbatim>\<open>normalize_row\<close> rejects is
  answered with 400. \<^verbatim>\<open>reset_prices\<close> has no handler for \<^verbatim>\<open>ValueError\<close>, unlike
  \<^verbatim>\<open>upsert_price\<close>: on the body with one element of empty \<^verbatim>\<open>sku\<close> the exception
  leaves the handler and the status is 500, where \<^verbatim>\<open>upsert_price\<close> answers the same
  fields with 400.
\<close>

theorem reset_prices_status_500:
  "reset_prices lib0 [[''sku'' \<mapsto> PStr '''', ''key'' \<mapsto> PStr ''k'', ''price'' \<mapsto> PInt 1]] []
     = (Raised (ValueError ''sku and key are required''), [])
   \<and> status_code (fst (reset_prices lib0
        [[''sku'' \<mapsto> PStr '''', ''key'' \<mapsto> PStr ''k'', ''price'' \<mapsto> PInt 1]] [])) = 500
   \<and> fst (upsert_price lib0 '''' ''k'' [''price'' \<mapsto> PInt 1] [])
     = HTTPException 400 ''sku and key are required''"
  by code_simp

section \<open>The count of a reset\<close>

text \<open>
  Claim C4, as amended. When \<^verbatim>\<open>normalize_row\<close> accepts every element,
  \<^verbatim>\<open>reset_prices\<close> returns the length of the input as its count. The table then holds
  one row for each distinct id among the normalized elements, each row being one of these
  elements under its own id; the count is the number of rows exactly when the ids of
  the elements are pairwise distinct.
\<close>

theorem reset_prices_count:
  assumes "\<forall>item \<in> set items. \<not> isl (normalize_row L item)"
  shows "\<exists>t ds. map (normalize_row L) items = map Inr ds
           \<and> reset_prices L items db
               = (Returned \<lparr>r_status = ''ok'', r_count = length items\<rparr>, t)
           \<and> distinct (map fst t)
           \<and> set (map fst t) = set (map (\<lambda>d. make_id (sku d) (key d)) ds)
           \<and> set t \<subseteq> (\<lambda>d. (make_id (sku d) (key d), d)) ` set ds
           \<and> (length t = length items
                \<longleftrightarrow> distinct (map (\<lambda>d. make_id (sku d) (key d)) ds))"
proof -
  let ?conn = "execute_delete (get_db db)"
  let ?ident = "\<lambda>d :: 'a price_rec. make_id (sku d) (key d)"
  have e: "pending ?conn = []"
    by (simp add: execute_delete_def)
  then have "distinct (map fst (pending ?conn))"
    by simp
  from reset_loop_succeeds [OF assms this] obtain c ds where
      loop: "reset_loop L items ?conn = Inr c"
      and ds: "map (normalize_row L) items = map Inr ds"
      and dc: "distinct (map fst (pending c))"
      and ids0: "set (map fst (pending c))
          = set (map fst (pending ?conn)) \<union> set (map ?ident ds)"
      and rows0: "set (pending c)
          \<subseteq> set (pending ?conn) \<union> (\<lambda>d. (make_id (sku d) (key d), d)) ` set ds"
    by blast
  from ids0 have ids: "set (map fst (pending c)) = set (map ?ident ds)"
    unfolding e by simp
  from rows0 have rows: "set (pending c) \<subseteq> (\<lambda>d. (make_id (sku d) (key d), d)) ` set ds"
    unfolding e by simp
  have res: "reset_prices L items db
      = (Returned \<lparr>r_status = ''ok'', r_count = length items\<rparr>, pending c)"
    using loop by (simp add: reset_prices_def commit_def close_def)
  from ds have "length (map (normalize_row L) items) = length (map Inr ds)"
    by simp
  then have len: "length items = length ds"
    by simp
  from distinct_card [OF dc] have "length (pending c) = card (set (map fst (pending c)))"
    by simp
  with ids have card: "length (pending c) = card (set (map ?ident ds))"
    by simp
  have cnt: "length (pending c) = length items \<longleftrightarrow> distinct (map ?ident ds)"
  proof
    assume "length (pending c) = length items"
    with card len have "card (set (map ?ident ds)) = length (map ?ident ds)"
      by simp
    then show "distinct (map ?ident ds)"
      by (rule card_distinct)
  next
    assume "distinct (map ?ident ds)"
    from distinct_card [OF this] card len show "length (pending c) = length items"
      by simp
  qed
  show ?thesis
    by (intro exI [of _ "pending c"] exI [of _ ds] conjI ds res dc ids rows cnt)
qed

theorem reset_prices_count_witness:
  "fst (reset_prices lib0
      [[''sku'' \<mapsto> PStr ''A'', ''key'' \<mapsto> PStr ''k'', ''price'' \<mapsto> PInt 1],
       [''sku'' \<mapsto> PStr ''B'', ''key'' \<mapsto> PStr ''k'', ''price'' \<mapsto> PInt 2]]
      [(''C::k'', \<lparr>sku = ''C'', key = ''k'', price = 3, isActive = True\<rparr>)])
     = Returned \<lparr>r_status = ''ok'', r_count = 2\<rparr>
   \<and> length (snd (reset_prices lib0
      [[''sku'' \<mapsto> PStr ''A'', ''key'' \<mapsto> PStr ''k'', ''price'' \<mapsto> PInt 1],
       [''sku'' \<mapsto> PStr ''B'', ''key'' \<mapsto> PStr ''k'', ''price'' \<mapsto> PInt 2]]
      [(''C::k'', \<lparr>sku = ''C'', key = ''k'', price = 3, isActive = True\<rparr>)])) = 2"
proof -
  let ?items = "[[''sku'' \<mapsto> PStr ''A'', ''key'' \<mapsto> PStr ''k'', ''price'' \<mapsto> PInt 1],
       [''sku'' \<mapsto> PStr ''B'', ''key'' \<mapsto> PStr ''k'', ''price'' \<mapsto> PInt (2::int)]] :: rat pydict list"
  let ?db = "[(''C::k'', \<lparr>sku = ''C'', key = ''k'', price = 3::rat, isActive = True\<rparr>)]"
  have n: "map (normalize_row lib0) ?items
      = map Inr [\<lparr>sku = ''A'', key = ''k'', price = 1, isActive = True\<rparr>,
                 \<lparr>sku = ''B'', key = ''k'', price = 2, isActive = True\<rparr>]"
    by code_simp
  then have h: "\<forall>item \<in> set ?items. \<not> isl (normalize_row lib0 item)"
    by simp
  from reset_prices_count [OF h, of ?db] obtain t ds where
      ds: "map (normalize_row lib0) ?items = map Inr ds"
      and res: "reset_prices lib0 ?items ?db
          = (Returned \<lparr>r_status = ''ok'', r_count = length ?items\<rparr>, t)"
      and cnt: "length t = length ?items
          \<longleftrightarrow> distinct (map (\<lambda>d. make_id (sku d) (key d)) ds)"
    by blast
  from ds n have "ds = [\<lparr>sku = ''A'', key = ''k'', price = 1, isActive = True\<rparr>,
                 \<lparr>sku = ''B'', key = ''k'', price = 2, isActive = True\<rparr>]"
    by (simp add: map_eq_Cons_conv)
  then have "distinct (map (\<lambda>d. make_id (sku d) (key d)) ds)"
    by (simp add: make_id_def)
  with cnt have "length t = 2"
    by simp
  with res show ?thesis
    by simp
qed

text \<open>
  The claim as stated fails on two elements with the same \<^verbatim>\<open>sku\<close> and \<^verbatim>\<open>key\<close>: the count
  is 2, the length of the input, and one record is stored.
\<close>

theorem reset_prices_count_counterexample:
  "reset_prices lib0
      [[''sku'' \<mapsto> PStr ''A'', ''key'' \<mapsto> PStr ''k'', ''price'' \<mapsto> PInt 1],
       [''sku'' \<mapsto> PStr ''A'', ''key'' \<mapsto> PStr ''k'', ''price'' \<mapsto> PInt 2]] []
   = (Returned \<lparr>r_status = ''ok'', r_count = 2\<rparr>,
      [(''A::k'', \<lparr>sku = ''A'', key = ''k'', price = 2, isActive = True\<rparr>)])"
  by code_simp

section \<open>Listing is sorted and reads only\<close>

text \<open>
  Claim C5. \<^verbatim>\<open>list_prices\<close> returns the stored records, each as often as it is stored,
  in ascending order of the pair \<^verbatim>\<open>(sku, key)\<close>: a record listed earlier has the smaller
  \<^verbatim>\<open>sku\<close>, or the same \<^verbatim>\<open>sku\<close> and a \<^verbatim>\<open>key\<close> that is not greater, in the
  lexicographic order of strings. The table is left as it was. The order of the rows in
  the table does not matter: two tables with the same rows give the same sequence of
  pairs, and the same list when no two rows share a pair.
\<close>

theorem list_prices_sorted:
  "\<exists>rows. list_prices db = (Returned rows, db)
      \<and> mset rows = mset (map snd db)
      \<and> sorted (map sort_tuple rows)
      \<and> (\<forall>i j. i < j \<and> j < length rows \<longrightarrow>
            sku (rows ! i) < sku (rows ! j)
            \<or> (sku (rows ! i) = sku (rows ! j) \<and> key (rows ! i) \<le> key (rows ! j)))
      \<and> (\<forall>db' rows'. mset db' = mset db \<and> fst (list_prices db') = Returned rows' \<longrightarrow>
            map sort_tuple rows' = map sort_tuple rows
            \<and> (distinct (map sort_tuple (map snd db)) \<longrightarrow> rows' = rows))"
proof -
  let ?rows = "sort_key sort_tuple (map snd db)"
  have srt: "sorted (map sort_tuple ?rows)"
    by simp
  have nth: "\<forall>i j. i < j \<and> j < length ?rows \<longrightarrow>
            sku (?rows ! i) < sku (?rows ! j)
            \<or> (sku (?rows ! i) = sku (?rows ! j) \<and> key (?rows ! i) \<le> key (?rows ! j))"
  proof (intro allI impI)
    fix i j
    assume ij: "i < j \<and> j < length ?rows"
    then have "j < length (map sort_tuple ?rows)" and "i < length ?rows"
      by simp_all
    with sorted_prod_nth [OF srt, of i j] ij
    show "sku (?rows ! i) < sku (?rows ! j)
            \<or> (sku (?rows ! i) = sku (?rows ! j) \<and> key (?rows ! i) \<le> key (?rows ! j))"
      by (simp add: sort_tuple_def)
  qed
  have perm: "\<forall>db' rows'. mset db' = mset db \<and> fst (list_prices db') = Returned rows' \<longrightarrow>
            map sort_tuple rows' = map sort_tuple ?rows
            \<and> (distinct (map sort_tuple (map snd db)) \<longrightarrow> rows' = ?rows)"
  proof (intro allI impI)
    fix db' :: "'a table" and rows'
    assume h: "mset db' = mset db \<and> fst (list_prices db') = Returned rows'"
    then have r': "rows' = sort_key sort_tuple (map snd db')"
      by (simp add: list_prices_eq)
    from h have m: "mset (map snd db') = mset (map snd db)"
      by (metis mset_map)
    then have "mset (map sort_tuple (map snd db')) = mset (map sort_tuple (map snd db))"
      by (metis mset_map)
    then have keys: "map sort_tuple rows' = map sort_tuple ?rows"
      unfolding r' map_sort_key by (rule sort_mset_cong)
    have "distinct (map sort_tuple (map snd db)) \<longrightarrow> rows' = ?rows"
      unfolding r' using sort_key_mset_cong [OF m [symmetric], of sort_tuple] by simp
    with keys show "map sort_tuple rows' = map sort_tuple ?rows
            \<and> (distinct (map sort_tuple (map snd db)) \<longrightarrow> rows' = ?rows)"
      by simp
  qed
  have "list_prices db = (Returned ?rows, db)"
    by (rule list_prices_eq)
  moreover have "mset ?rows = mset (map snd db)"
    by simp
  ultimately show ?thesis
    using srt nth perm by blast
qed

theorem list_prices_sorted_witness:
  "fst (list_prices
      [(''b::k'', \<lparr>sku = ''b'', key = ''k'', price = 1::rat, isActive = True\<rparr>),
       (''a::z'', \<lparr>sku = ''a'', key = ''z'', price = 2, isActive = True\<rparr>),
       (''a::k'', \<lparr>sku = ''a'', key = ''k'', price = 3, isActive = False\<rparr>)])
   = Returned
      [\<lparr>sku = ''a'', key = ''k'', price = 3, isActive = False\<rparr>,
       \<lparr>sku = ''a'', key = ''z'', price = 2, isActive = True\<rparr>,
       \<lparr>sku = ''b'', key = ''k'', price = 1, isActive = True\<rparr>]"
proof -
  let ?db = "[(''b::k'', \<lparr>sku = ''b'', key = ''k'', price = 1::rat, isActive = True\<rparr>),
       (''a::z'', \<lparr>sku = ''a'', key = ''z'', price = 2, isActive = True\<rparr>),
       (''a::k'', \<lparr>sku = ''a'', key = ''k'', price = 3, isActive = False\<rparr>)]"
  let ?db' = "[(''a::k'', \<lparr>sku = ''a'', key = ''k'', price = 3::rat, isActive = False\<rparr>),
       (''a::z'', \<lparr>sku = ''a'', key = ''z'', price = 2, isActive = True\<rparr>),
       (''b::k'', \<lparr>sku = ''b'', key = ''k'', price = 1, isActive = True\<rparr>)]"
  have ev': "fst (list_prices ?db') = Returned
      [\<lparr>sku = ''a'', key = ''k'', price = 3, isActive = False\<rparr>,
       \<lparr>sku = ''a'', key = ''z'', price = 2, isActive = True\<rparr>,
       \<lparr>sku = ''b'', key = ''k'', price = 1, isActive = True\<rparr>]"
    by (simp add: list_prices_def get_db_def execute_select_data_def close_def sort_tuple_def)
  have m: "mset ?db' = mset ?db"
    by (simp add: add.commute add.left_commute)
  have d: "distinct (map sort_tuple (map snd ?db))"
    by (simp add: sort_tuple_def)
  from list_prices_sorted [of ?db] obtain rows where
      r: "list_prices ?db = (Returned rows, ?db)"
      and p: "\<forall>db' rows'. mset db' = mset ?db \<and> fst (list_prices db') = Returned rows' \<longrightarrow>
            map sort_tuple rows' = map sort_tuple rows
            \<and> (distinct (map sort_tuple (map snd ?db)) \<longrightarrow> rows' = rows)"
    by blast
  from p m ev' d have "[\<lparr>sku = ''a'', key = ''k'', price = 3::rat, isActive = False\<rparr>,
       \<lparr>sku = ''a'', key = ''z'', price = 2, isActive = True\<rparr>,
       \<lparr>sku = ''b'', key = ''k'', price = 1, isActive = True\<rparr>] = rows"
    by blast
  with r show ?thesis by simp
qed

section \<open>Upsert twice\<close>

text \<open>
  Claim C6 says that, in every state of the store, two upserts of the same
  \<^verbatim>\<open>(sku, key)\<close> with different prices leave exactly one stored record for that pair.
  In the table left by \<^verbatim>\<open>PUT /prices/%20A/k\<close> with price 9, two upserts of \<^verbatim>\<open>A\<close>,
  \<^verbatim>\<open>k\<close> with prices 1 and 2 leave two records of the pair: the second upsert replaces
  the first, and the row stored under the id of the untrimmed segments stays. The same
  two records are left on an empty table by an upsert of \<^verbatim>\<open>A\<close>, \<^verbatim>\<open>k\<close> and one of the
  same pair with a space before \<^verbatim>\<open>A\<close> in the path.
\<close>

theorem upsert_price_twice_two_records:
  "snd (upsert_price lib0 '' A'' ''k'' [''price'' \<mapsto> PInt 9] [])
     = [('' A::k'', \<lparr>sku = ''A'', key = ''k'', price = 9, isActive = True\<rparr>)]
   \<and> snd (upsert_price lib0 ''A'' ''k'' [''price'' \<mapsto> PInt 2]
        (snd (upsert_price lib0 ''A'' ''k'' [''price'' \<mapsto> PInt 1]
          [('' A::k'', \<lparr>sku = ''A'', key = ''k'', price = 9, isActive = True\<rparr>)])))
     = [('' A::k'', \<lparr>sku = ''A'', key = ''k'', price = 9, isActive = True\<rparr>),
        (''A::k'', \<lparr>sku = ''A'', key = ''k'', price = 2, isActive = True\<rparr>)]
   \<and> snd (upsert_price lib0 '' A'' ''k'' [''price'' \<mapsto> PInt 2]
        (snd (upsert_price lib0 ''A'' ''k'' [''price'' \<mapsto> PInt 1] [])))
     = [(''A::k'', \<lparr>sku = ''A'', key = ''k'', price = 1, isActive = True\<rparr>),
        ('' A::k'', \<lparr>sku = ''A'', key = ''k'', price = 2, isActive = True\<rparr>)]"
  by code_simp

section \<open>A price that is not a number\<close>

text \<open>
  Claim C7 says that a price that is present and is not a number fails with the validation
  error, as an empty \<^verbatim>\<open>sku\<close> and a missing price do. For the body
  \<^verbatim>\<open>{"price": []}\<close> of \<^verbatim>\<open>PUT /prices/A/k\<close>, \<^verbatim>\<open>float([])\<close> raises \<^verbatim>\<open>TypeError\<close>,
  not \<^verbatim>\<open>ValueError\<close>: \<^verbatim>\<open>normalize_row\<close> does not raise the validation error, the
  \<^verbatim>\<open>except ValueError\<close> of \<^verbatim>\<open>upsert_price\<close> does not catch the exception, and the
  status is 500, where a price that is a string without a number is answered with 400.
\<close>

theorem normalize_row_list_price_type_error:
  "normalize_row lib0 [''sku'' \<mapsto> PStr ''A'', ''key'' \<mapsto> PStr ''k'', ''price'' \<mapsto> PList []]
     = Inl TypeError
   \<and> upsert_price lib0 ''A'' ''k'' [''price'' \<mapsto> PList []] [] = (Raised TypeError, [])
   \<and> status_code (fst (upsert_price lib0 ''A'' ''k'' [''price'' \<mapsto> PList []] [])) = 500
   \<and> status_code (fst (upsert_price lib0 ''A'' ''k'' [''price'' \<mapsto> PStr ''abc''] [])) = 400"
  by code_simp

lemma lower_strip_examples:
  "lower (strip ''Yes'') = ''yes''"
  "lower (strip ''SIM'') = ''sim''"
  "lower (strip ''1'') = ''1''"
  "lower (strip ''no'') = ''no''"
  "lower (strip '''') = ''''"
  "lower (strip ''0'') = ''0''"
  "lower (strip ''None'') = ''none''"
  by code_simp+

lemma py_str_PNone: "py_str L PNone = ''None''"
  by (simp add: py_str_def)

section \<open>The boolean normalizer\<close>

text \<open>
  Claim C8. \<^verbatim>\<open>normalize_bool\<close> is a total function into the booleans. A boolean passes
  through; every other value is true exactly when its \<^verbatim>\<open>str\<close>, stripped and in lower
  case, is one of \<^verbatim>\<open>true\<close>, \<^verbatim>\<open>1\<close>, \<^verbatim>\<open>yes\<close>, \<^verbatim>\<open>y\<close>, \<^verbatim>\<open>sim\<close> (the branch for
  \<^verbatim>\<open>None\<close> agrees with this rule); a row without \<^verbatim>\<open>isActive\<close> is active. So
  \<^verbatim>\<open>Yes\<close>, \<^verbatim>\<open>SIM\<close>, \<^verbatim>\<open>1\<close> and \<^verbatim>\<open>True\<close> are true, and \<^verbatim>\<open>no\<close>, the empty string
  and \<^verbatim>\<open>0\<close> are false.
\<close>

theorem normalize_bool_spec:
  "normalize_bool L v =
     (case v of PBool b \<Rightarrow> b | _ \<Rightarrow> lower (strip (py_str L v)) \<in> set truthy)
   \<and> normalize_bool L (dict_get (row(''isActive'' := None)) ''isActive'' (PBool True))
   \<and> (normalize_row L row = Inr d \<longrightarrow>
        isActive d = (case row ''isActive'' of None \<Rightarrow> True | Some w \<Rightarrow> normalize_bool L w))
   \<and> normalize_bool L (PStr ''Yes'') \<and> normalize_bool L (PStr ''SIM'')
   \<and> normalize_bool L (PStr ''1'') \<and> normalize_bool L (PBool True)
   \<and> \<not> normalize_bool L (PStr ''no'') \<and> \<not> normalize_bool L (PStr '''')
   \<and> \<not> normalize_bool L (PStr ''0'')"
proof -
  have none: "lower (strip (py_str L PNone)) \<notin> set truthy"
    by (simp add: py_str_PNone lower_strip_examples truthy_def)
  have general: "normalize_bool L v =
     (case v of PBool b \<Rightarrow> b | _ \<Rightarrow> lower (strip (py_str L v)) \<in> set truthy)"
    using none by (cases v) (simp_all add: normalize_bool_def)
  have absent: "normalize_bool L (dict_get (row(''isActive'' := None)) ''isActive'' (PBool True))"
    by (simp add: dict_get_def normalize_bool_def)
  have row: "normalize_row L row = Inr d \<longrightarrow>
        isActive d = (case row ''isActive'' of None \<Rightarrow> True | Some w \<Rightarrow> normalize_bool L w)"
    by (auto simp: normalize_row_def Let_def dict_get_def normalize_bool_def
        split: if_splits sum.splits option.splits)
  have ex: "normalize_bool L (PStr ''Yes'')" "normalize_bool L (PStr ''SIM'')"
      "normalize_bool L (PStr ''1'')" "normalize_bool L (PBool True)"
      "\<not> normalize_bool L (PStr ''no'')" "\<not> normalize_bool L (PStr '''')"
      "\<not> normalize_bool L (PStr ''0'')"
    by (simp_all add: normalize_bool_def py_str_def lower_strip_examples truthy_def)
  from general absent row ex show ?thesis by blast
qed

theorem normalize_bool_spec_witness:
  "normalize_row lib0 [''sku'' \<mapsto> PStr ''A'', ''key'' \<mapsto> PStr ''k'', ''price'' \<mapsto> PInt 1,
       ''isActive'' \<mapsto> PStr '' Sim '']
     = Inr \<lparr>sku = ''A'', key = ''k'', price = 1, isActive = True\<rparr>
   \<and> isActive \<lparr>sku = ''A'', key = ''k'', price = 1::rat, isActive = True\<rparr>
       = normalize_bool lib0 (PStr '' Sim '')"
proof -
  have n: "normalize_row lib0 [''sku'' \<mapsto> PStr ''A'', ''key'' \<mapsto> PStr ''k'', ''price'' \<mapsto> PInt 1,
       ''isActive'' \<mapsto> PStr '' Sim '']
     = Inr \<lparr>sku = ''A'', key = ''k'', price = 1, isActive = True\<rparr>"
    by code_simp
  from n normalize_bool_spec [of lib0 PNone "[''sku'' \<mapsto> PStr ''A'', ''key'' \<mapsto> PStr ''k'', ''price'' \<mapsto> PInt 1,
       ''isActive'' \<mapsto> PStr '' Sim '']" "\<lparr>sku = ''A'', key = ''k'', price = 1, isActive = True\<rparr>"]
  show ?thesis by simp
qed

section \<open>The response of an upsert\<close>

text \<open>
  Claim C9. The fields \<^verbatim>\<open>sku\<close> and \<^verbatim>\<open>key\<close> of the body of a \<^verbatim>\<open>PUT\<close> have no effect:
  the path segments replace them. On success the body of the response has the status
  \<^verbatim>\<open>ok\<close>, the id \<^verbatim>\<open>sku::key\<close> of the path segments, and the record that
  \<^verbatim>\<open>normalize_row\<close> returns for the body with the path segments, whose \<^verbatim>\<open>sku\<close> and
  \<^verbatim>\<open>key\<close> are the trimmed segments. For \<^verbatim>\<open>PUT /prices/ABC/retail\<close> with the body
  \<^verbatim>\<open>{"price": x}\<close>, \<open>x\<close> a float, it is the id \<^verbatim>\<open>ABC::retail\<close> and the active record
  of \<^verbatim>\<open>ABC\<close>, \<^verbatim>\<open>retail\<close> and \<open>x\<close>.
\<close>

theorem upsert_price_response:
  "upsert_price L s k (payload(''sku'' := a, ''key'' := b)) db = upsert_price L s k payload db
   \<and> (normalize_row L (payload(''sku'' \<mapsto> PStr s, ''key'' \<mapsto> PStr k)) = Inr r \<longrightarrow>
        fst (upsert_price L s k payload db)
          = Returned \<lparr>u_status = ''ok'', u_id = s @ ''::'' @ k, u_price = r\<rparr>
        \<and> sku r = strip s \<and> key r = strip k)
   \<and> (strip (repr_float L x) \<noteq> [] \<longrightarrow>
        fst (upsert_price L ''ABC'' ''retail'' [''price'' \<mapsto> PFloat x] db)
          = Returned \<lparr>u_status = ''ok'', u_id = ''ABC::retail'',
              u_price = \<lparr>sku = ''ABC'', key = ''retail'', price = x, isActive = True\<rparr>\<rparr>)"
proof -
  have over: "upsert_price L s k (payload(''sku'' := a, ''key'' := b)) db
      = upsert_price L s k payload db"
    by (simp add: upsert_price_def)
  have succ: "normalize_row L (payload(''sku'' \<mapsto> PStr s, ''key'' \<mapsto> PStr k)) = Inr r \<longrightarrow>
        fst (upsert_price L s k payload db)
          = Returned \<lparr>u_status = ''ok'', u_id = s @ ''::'' @ k, u_price = r\<rparr>
        \<and> sku r = strip s \<and> key r = strip k"
    using upsert_price_success [of L payload s k r db] normalize_row_sku_key [of L payload s k r]
    by (simp add: make_id_def)
  have st: "strip ''ABC'' = ''ABC''" "strip ''retail'' = ''retail''"
    by code_simp+
  have ex: "strip (repr_float L x) \<noteq> [] \<longrightarrow>
        fst (upsert_price L ''ABC'' ''retail'' [''price'' \<mapsto> PFloat x] db)
          = Returned \<lparr>u_status = ''ok'', u_id = ''ABC::retail'',
              u_price = \<lparr>sku = ''ABC'', key = ''retail'', price = x, isActive = True\<rparr>\<rparr>"
  proof
    assume nb: "strip (repr_float L x) \<noteq> []"
    have "normalize_row L ([''price'' \<mapsto> PFloat x](''sku'' \<mapsto> PStr ''ABC'', ''key'' \<mapsto> PStr ''retail''))
        = Inr \<lparr>sku = ''ABC'', key = ''retail'', price = x, isActive = True\<rparr>"
      using nb by (simp add: normalize_row_def Let_def dict_get_def py_str_def py_float_def
          normalize_bool_def st)
    from upsert_price_success [OF this, of db]
    show "fst (upsert_price L ''ABC'' ''retail'' [''price'' \<mapsto> PFloat x] db)
          = Returned \<lparr>u_status = ''ok'', u_id = ''ABC::retail'',
              u_price = \<lparr>sku = ''ABC'', key = ''retail'', price = x, isActive = True\<rparr>\<rparr>"
      by (simp add: make_id_def)
  qed
  from over succ ex show ?thesis by blast
qed

theorem upsert_price_response_witness:
  "fst (upsert_price lib0 ''X'' '' web '' [''sku'' \<mapsto> PStr ''other'', ''price'' \<mapsto> PStr ''12'',
          ''isActive'' \<mapsto> PStr ''no''] [])
     = Returned \<lparr>u_status = ''ok'', u_id = ''X:: web '',
         u_price = \<lparr>sku = ''X'', key = ''web'', price = 12, isActive = False\<rparr>\<rparr>
   \<and> fst (upsert_price lib0 ''ABC'' ''retail'' [''price'' \<mapsto> PFloat (199 / 10)] [])
     = Returned \<lparr>u_status = ''ok'', u_id = ''ABC::retail'',
         u_price = \<lparr>sku = ''ABC'', key = ''retail'', price = 199 / 10, isActive = True\<rparr>\<rparr>"
proof -
  have h1: "normalize_row lib0 ([''sku'' \<mapsto> PStr ''other'', ''price'' \<mapsto> PStr ''12'',
          ''isActive'' \<mapsto> PStr ''no''](''sku'' \<mapsto> PStr ''X'', ''key'' \<mapsto> PStr '' web ''))
      = Inr \<lparr>sku = ''X'', key = ''web'', price = 12, isActive = False\<rparr>"
    by code_simp
  have h2: "strip (repr_float lib0 (199 / 10)) \<noteq> []"
    by code_simp
  from h1 h2
    upsert_price_response [of lib0 "''X''" "'' web ''"
      "[''sku'' \<mapsto> PStr ''other'', ''price'' \<mapsto> PStr ''12'', ''isActive'' \<mapsto> PStr ''no'']"
      None None "[]" "\<lparr>sku = ''X'', key = ''web'', price = 12, isActive = False\<rparr>" "199 / 10"]
  show ?thesis by simp
qed

section \<open>Upsert and the rows of other ids\<close>

text \<open>
  Claim C10 says that after the upsert of a valid record every stored entry whose id is
  not \<^verbatim>\<open>makeId\<close> of the \<^verbatim>\<open>sku\<close> and \<^verbatim>\<open>key\<close> of the record is unchanged. In the
  table left by \<^verbatim>\<open>PUT /prices/%20A/k\<close> with price 9, the same request with price 7
  upserts the record of \<^verbatim>\<open>A\<close>, \<^verbatim>\<open>k\<close> and 7, whose id is \<^verbatim>\<open>A::k\<close>, and changes the
  entry stored under the id of the untrimmed segments, which is another id.
\<close>

theorem upsert_price_alters_other_id:
  "snd (upsert_price lib0 '' A'' ''k'' [''price'' \<mapsto> PInt 9] [])
     = [('' A::k'', \<lparr>sku = ''A'', key = ''k'', price = 9, isActive = True\<rparr>)]
   \<and> upsert_price lib0 '' A'' ''k'' [''price'' \<mapsto> PInt 7]
        [('' A::k'', \<lparr>sku = ''A'', key = ''k'', price = 9, isActive = True\<rparr>)]
     = (Returned \<lparr>u_status = ''ok'', u_id = '' A::k'',
          u_price = \<lparr>sku = ''A'', key = ''k'', price = 7, isActive = True\<rparr>\<rparr>,
        [('' A::k'', \<lparr>sku = ''A'', key = ''k'', price = 7, isActive = True\<rparr>)])
   \<and> make_id (sku \<lparr>sku = ''A'', key = ''k'', price = 7::rat, isActive = True\<rparr>)
              (key \<lparr>sku = ''A'', key = ''k'', price = 7::rat, isActive = True\<rparr>) = ''A::k''
   \<and> '' A::k'' \<noteq> ''A::k''"
  by code_simp

end
